theory Spec2Isabelle
  imports Main
begin

section \<open>Erasure-coding drivers of pyeclib (core.py)\<close>

text \<open>
  The module holds three driver classes. \<open>ECStripingDriver\<close> computes on its own;
  \<open>ECPyECLibDriver\<close> hands every byte-level step to the extension module
  \<open>pyeclib_c\<close>, which is taken here as a parameter. Buffers and fragments are Python
  strings, modelled as \<open>string\<close>; Python integers are \<open>int\<close>.

  The arithmetic follows Python 3: \<open>math.ceil\<close> yields an integer, and \<open>/\<close> on a
  float is true division. The quotient \<open>len(bytes) / float(k)\<close> is taken as the exact
  rational, which is what the float gives for every length below \<open>2^53\<close>.
\<close>

subsection \<open>Errors\<close>

text \<open>
  Every \<open>raise\<close> statement of the module names \<open>ECDriverError\<close>. The module imports
  \<open>pyeclib_c\<close> and \<open>math\<close> only and defines no such class, so evaluating the name
  raises \<open>NameError\<close> before any exception object is built. \<open>ECDriverError\<close> is kept
  as a constructor so that results can be compared with what the docstrings promise.
  \<open>EngineFault\<close> is an exception raised inside \<open>pyeclib_c\<close> that reaches the caller.
\<close>

datatype 'f py_error =
    NameError
  | IndexError
  | ZeroDivisionError
  | EngineFault 'f
  | ECDriverError string

subsection \<open>Python slicing\<close>

text \<open>
  \<open>s[lo:hi]\<close> for integers \<open>lo\<close> and \<open>hi\<close>: a negative bound counts from the end,
  both bounds are clamped to \<open>0..len(s)\<close>, and the slice is empty when the bounds cross.
\<close>

definition slice_bound :: "int \<Rightarrow> int \<Rightarrow> int" where
  "slice_bound n i = (if i < 0 then max (i + n) 0 else min i n)"

definition py_slice :: "'a list \<Rightarrow> int \<Rightarrow> int \<Rightarrow> 'a list" where
  "py_slice s lo hi =
     (let n = int (length s); a = slice_bound n lo; b = slice_bound n hi
      in take (nat (b - a)) (drop (nat a) s))"

text \<open>\<open>math.ceil(a / float(b))\<close> for integers \<open>a\<close> and \<open>b \<noteq> 0\<close>.\<close>

definition ceil_div :: "int \<Rightarrow> int \<Rightarrow> int" where
  "ceil_div a b = - ((- a) div b)"

subsection \<open>ECStripingDriver\<close>

record ECStripingDriver =
  sd_k :: int
  sd_m :: int

definition ECStripingDriver_init :: "int \<Rightarrow> int \<Rightarrow> 'f py_error + ECStripingDriver" where
  "ECStripingDriver_init k m =
     (if m \<noteq> 0 then Inl NameError else Inr \<lparr>sd_k = k, sd_m = m\<rparr>)"

text \<open>
  The loop \<open>for i in range(self.k-1)\<close> of \<open>encode\<close>: the counter is the number of
  rounds left; each round appends \<open>bytes[offset:fragment_size]\<close> and advances
  \<open>offset\<close>.
\<close>

fun encode_loop :: "nat \<Rightarrow> string \<Rightarrow> int \<Rightarrow> int \<Rightarrow> string list \<Rightarrow> string list \<times> int" where
  "encode_loop 0 bytes fragment_size offset fragments = (fragments, offset)"
| "encode_loop (Suc n) bytes fragment_size offset fragments =
     encode_loop n bytes fragment_size (offset + fragment_size)
       (fragments @ [py_slice bytes offset fragment_size])"

definition ECStripingDriver_encode ::
  "ECStripingDriver \<Rightarrow> string \<Rightarrow> 'f py_error + string list" where
  "ECStripingDriver_encode self bytes =
     (if sd_k self = 0 then Inl ZeroDivisionError
      else
        let fragment_size = ceil_div (int (length bytes)) (sd_k self);
            last_fragment_size = int (length bytes) - (fragment_size * sd_k self - 1);
            (fragments, offset) = encode_loop (nat (sd_k self - 1)) bytes fragment_size 0 []
        in Inr (fragments @ [py_slice bytes offset last_fragment_size]))"

definition ECStripingDriver_decode ::
  "ECStripingDriver \<Rightarrow> string list \<Rightarrow> 'f py_error + string" where
  "ECStripingDriver_decode self fragment_payloads =
     (if int (length fragment_payloads) \<noteq> sd_k self then Inl NameError
      else Inr (foldl (\<lambda>ret_string fragment. ret_string @ fragment) [] fragment_payloads))"

definition ECStripingDriver_reconstruct ::
  "ECStripingDriver \<Rightarrow> string list \<Rightarrow> int list \<Rightarrow> 'f py_error + string list" where
  "ECStripingDriver_reconstruct self available_fragment_payloads missing_fragment_indexes =
     (if int (length available_fragment_payloads) \<noteq> sd_k self then Inl NameError
      else Inr available_fragment_payloads)"

definition ECStripingDriver_fragments_needed :: "ECStripingDriver \<Rightarrow> int list \<Rightarrow> int list" where
  "ECStripingDriver_fragments_needed self missing_fragment_indexes = missing_fragment_indexes"

subsection \<open>The extension module pyeclib_c\<close>

text \<open>
  \<open>pyeclib_c\<close> is not part of the module: it is a parameter of the model. Each of its
  functions reads and may change a state of its own (\<open>'s\<close>, whatever the codec keeps
  behind the handle) and either raises (\<open>Inl\<close>) or returns. \<open>fragments_to_string\<close>
  returns Python's \<open>None\<close> when the fragments cannot be reassembled as they are.
\<close>

record ('f, 'h, 's) engine =
  pyeclib_c_init :: "int \<Rightarrow> int \<Rightarrow> int \<Rightarrow> string \<Rightarrow> 's \<Rightarrow> ('f + 'h) \<times> 's"
  pyeclib_c_encode :: "'h \<Rightarrow> string \<Rightarrow> 's \<Rightarrow> ('f + string list) \<times> 's"
  pyeclib_c_fragments_to_string :: "'h \<Rightarrow> string list \<Rightarrow> 's \<Rightarrow> ('f + string option) \<times> 's"
  pyeclib_c_get_fragment_partition ::
    "'h \<Rightarrow> string list \<Rightarrow> 's \<Rightarrow> ('f + string list \<times> string list \<times> int list) \<times> 's"
  pyeclib_c_decode ::
    "'h \<Rightarrow> string list \<Rightarrow> string list \<Rightarrow> int list \<Rightarrow> int \<Rightarrow> 's \<Rightarrow> ('f + string list) \<times> 's"
  pyeclib_c_reconstruct ::
    "'h \<Rightarrow> string list \<Rightarrow> string list \<Rightarrow> int list \<Rightarrow> int \<Rightarrow> int \<Rightarrow> 's \<Rightarrow> ('f + string) \<times> 's"
  pyeclib_c_get_required_fragments :: "int list \<Rightarrow> 's \<Rightarrow> ('f + int list) \<times> 's"

text \<open>
  Every call into \<open>pyeclib_c\<close> is recorded with its arguments and its outcome, in the
  order the calls are made. The record is an observer: no driver reads it.
\<close>

datatype ('f, 'h) event =
    EvInit int int int string "'f + 'h"
  | EvEncode 'h string "'f + string list"
  | EvFragmentsToString 'h "string list" "'f + string option"
  | EvGetFragmentPartition 'h "string list" "'f + string list \<times> string list \<times> int list"
  | EvDecode 'h "string list" "string list" "int list" int "'f + string list"
  | EvReconstruct 'h "string list" "string list" "int list" int int "'f + string"
  | EvGetRequiredFragments "int list" "'f + int list"

record ('f, 'h, 's) world =
  eng_state :: 's
  calls :: "('f, 'h) event list"

definition call_init ::
  "('f, 'h, 's) engine \<Rightarrow> int \<Rightarrow> int \<Rightarrow> int \<Rightarrow> string \<Rightarrow> ('f, 'h, 's) world
     \<Rightarrow> ('f + 'h) \<times> ('f, 'h, 's) world" where
  "call_init E k m w type wd =
     (let (r, s) = pyeclib_c_init E k m w type (eng_state wd)
      in (r, \<lparr>eng_state = s, calls = calls wd @ [EvInit k m w type r]\<rparr>))"

definition call_encode ::
  "('f, 'h, 's) engine \<Rightarrow> 'h \<Rightarrow> string \<Rightarrow> ('f, 'h, 's) world
     \<Rightarrow> ('f + string list) \<times> ('f, 'h, 's) world" where
  "call_encode E h bytes wd =
     (let (r, s) = pyeclib_c_encode E h bytes (eng_state wd)
      in (r, \<lparr>eng_state = s, calls = calls wd @ [EvEncode h bytes r]\<rparr>))"

definition call_fragments_to_string ::
  "('f, 'h, 's) engine \<Rightarrow> 'h \<Rightarrow> string list \<Rightarrow> ('f, 'h, 's) world
     \<Rightarrow> ('f + string option) \<times> ('f, 'h, 's) world" where
  "call_fragments_to_string E h frags wd =
     (let (r, s) = pyeclib_c_fragments_to_string E h frags (eng_state wd)
      in (r, \<lparr>eng_state = s, calls = calls wd @ [EvFragmentsToString h frags r]\<rparr>))"

definition call_get_fragment_partition ::
  "('f, 'h, 's) engine \<Rightarrow> 'h \<Rightarrow> string list \<Rightarrow> ('f, 'h, 's) world
     \<Rightarrow> ('f + string list \<times> string list \<times> int list) \<times> ('f, 'h, 's) world" where
  "call_get_fragment_partition E h frags wd =
     (let (r, s) = pyeclib_c_get_fragment_partition E h frags (eng_state wd)
      in (r, \<lparr>eng_state = s, calls = calls wd @ [EvGetFragmentPartition h frags r]\<rparr>))"

definition call_decode ::
  "('f, 'h, 's) engine \<Rightarrow> 'h \<Rightarrow> string list \<Rightarrow> string list \<Rightarrow> int list \<Rightarrow> int
     \<Rightarrow> ('f, 'h, 's) world \<Rightarrow> ('f + string list) \<times> ('f, 'h, 's) world" where
  "call_decode E h data_frags parity_frags missing_idxs frag_len wd =
     (let (r, s) = pyeclib_c_decode E h data_frags parity_frags missing_idxs frag_len (eng_state wd)
      in (r, \<lparr>eng_state = s,
              calls = calls wd @ [EvDecode h data_frags parity_frags missing_idxs frag_len r]\<rparr>))"

definition call_reconstruct ::
  "('f, 'h, 's) engine \<Rightarrow> 'h \<Rightarrow> string list \<Rightarrow> string list \<Rightarrow> int list \<Rightarrow> int \<Rightarrow> int
     \<Rightarrow> ('f, 'h, 's) world \<Rightarrow> ('f + string) \<times> ('f, 'h, 's) world" where
  "call_reconstruct E h data_frags parity_frags missing_idxs index frag_len wd =
     (let (r, s) =
            pyeclib_c_reconstruct E h data_frags parity_frags missing_idxs index frag_len (eng_state wd)
      in (r, \<lparr>eng_state = s,
              calls = calls wd
                @ [EvReconstruct h data_frags parity_frags missing_idxs index frag_len r]\<rparr>))"

definition call_get_required_fragments ::
  "('f, 'h, 's) engine \<Rightarrow> int list \<Rightarrow> ('f, 'h, 's) world
     \<Rightarrow> ('f + int list) \<times> ('f, 'h, 's) world" where
  "call_get_required_fragments E missing_idxs wd =
     (let (r, s) = pyeclib_c_get_required_fragments E missing_idxs (eng_state wd)
      in (r, \<lparr>eng_state = s, calls = calls wd @ [EvGetRequiredFragments missing_idxs r]\<rparr>))"

subsection \<open>ECPyECLibDriver\<close>

text \<open>
  The attributes the constructor leaves on the object. \<open>hd\<close> is assigned in four of the
  five branches of the \<open>if\<close>/\<open>elif\<close> chain; the last branch assigns \<open>w\<close> only, so the
  attribute is optional here.
\<close>

record 'h ECPyECLibDriver =
  cd_k :: int
  cd_m :: int
  cd_type :: string
  cd_w :: int
  cd_hd :: "int option"
  cd_handle :: 'h

definition ec_rs_vand :: string where "ec_rs_vand = ''rs_vand''"
definition ec_rs_cauchy_orig :: string where "ec_rs_cauchy_orig = ''rs_cauchy_orig''"
definition ec_flat_xor_3 :: string where "ec_flat_xor_3 = ''flat_xor_3''"
definition ec_flat_xor_4 :: string where "ec_flat_xor_4 = ''flat_xor_4''"

definition ec_types :: "string list" where
  "ec_types = [ec_rs_vand, ec_rs_cauchy_orig, ec_flat_xor_3, ec_flat_xor_4]"


definition ec_rs_vand_best_w :: int where "ec_rs_vand_best_w = 16"
definition ec_default_w :: int where "ec_default_w = 32"
definition ec_rs_cauchy_best_w :: int where "ec_rs_cauchy_best_w = 4"

text \<open>The \<open>if\<close>/\<open>elif\<close> chain that sets \<open>self.w\<close> and \<open>self.hd\<close>.\<close>

definition w_hd_of_type :: "string \<Rightarrow> int \<Rightarrow> int \<times> int option" where
  "w_hd_of_type type m =
     (if type = ec_rs_vand then (ec_rs_vand_best_w, Some (m + 1))
      else if type = ec_rs_cauchy_orig then (ec_rs_cauchy_best_w, Some (m + 1))
      else if type = ec_flat_xor_3 then (ec_default_w, Some 3)
      else if type = ec_flat_xor_4 then (ec_default_w, Some 4)
      else (ec_default_w, None))"

definition ECPyECLibDriver_init ::
  "('f, 'h, 's) engine \<Rightarrow> int \<Rightarrow> int \<Rightarrow> string \<Rightarrow> ('f, 'h, 's) world
     \<Rightarrow> ('f py_error + 'h ECPyECLibDriver) \<times> ('f, 'h, 's) world" where
  "ECPyECLibDriver_init E k m type wd =
     (if type \<in> set ec_types then
        (let (w, hd) = w_hd_of_type type m
         in case call_init E k m w type wd of
              (Inl f, wd1) \<Rightarrow> (Inl (EngineFault f), wd1)
            | (Inr h, wd1) \<Rightarrow>
                (Inr \<lparr>cd_k = k, cd_m = m, cd_type = type, cd_w = w, cd_hd = hd, cd_handle = h\<rparr>,
                 wd1))
      else (Inl NameError, wd))"

definition ECPyECLibDriver_encode ::
  "('f, 'h, 's) engine \<Rightarrow> 'h ECPyECLibDriver \<Rightarrow> string \<Rightarrow> ('f, 'h, 's) world
     \<Rightarrow> ('f py_error + string list) \<times> ('f, 'h, 's) world" where
  "ECPyECLibDriver_encode E self bytes wd =
     (case call_encode E (cd_handle self) bytes wd of
        (Inl f, wd1) \<Rightarrow> (Inl (EngineFault f), wd1)
      | (Inr fragments, wd1) \<Rightarrow> (Inr fragments, wd1))"

text \<open>
  \<open>decode\<close>: the first call sits in a \<open>try\<close> whose bare \<open>except\<close> runs
  \<open>raise ECDriverError(...)\<close>; the three calls after it are outside any \<open>try\<close>.
  \<open>len(data_frags[0])\<close> is evaluated before \<open>pyeclib_c.decode\<close> is entered. The result
  is whatever the last \<open>fragments_to_string\<close> returned, \<open>None\<close> included.
\<close>

definition ECPyECLibDriver_decode ::
  "('f, 'h, 's) engine \<Rightarrow> 'h ECPyECLibDriver \<Rightarrow> string list \<Rightarrow> ('f, 'h, 's) world
     \<Rightarrow> ('f py_error + string option) \<times> ('f, 'h, 's) world" where
  "ECPyECLibDriver_decode E self fragment_payloads wd =
     (case call_fragments_to_string E (cd_handle self) fragment_payloads wd of
        (Inl f, wd1) \<Rightarrow> (Inl NameError, wd1)
      | (Inr (Some ret_string), wd1) \<Rightarrow> (Inr (Some ret_string), wd1)
      | (Inr None, wd1) \<Rightarrow>
          (case call_get_fragment_partition E (cd_handle self) fragment_payloads wd1 of
             (Inl f, wd2) \<Rightarrow> (Inl (EngineFault f), wd2)
           | (Inr (data_frags, parity_frags, missing_idxs), wd2) \<Rightarrow>
               (case data_frags of
                  [] \<Rightarrow> (Inl IndexError, wd2)
                | d0 # _ \<Rightarrow>
                    (case call_decode E (cd_handle self) data_frags parity_frags missing_idxs
                            (int (length d0)) wd2 of
                       (Inl f, wd3) \<Rightarrow> (Inl (EngineFault f), wd3)
                     | (Inr decoded_fragments, wd3) \<Rightarrow>
                         (case call_fragments_to_string E (cd_handle self) decoded_fragments wd3 of
                            (Inl f, wd4) \<Rightarrow> (Inl (EngineFault f), wd4)
                          | (Inr ret_string, wd4) \<Rightarrow> (Inr ret_string, wd4))))))"

text \<open>
  The \<open>while\<close> loop of \<open>reconstruct\<close>: the list argument is the private copy
  \<open>_indexes_to_reconstruct\<close>, \<open>pop(0)\<close> takes its head.
\<close>

fun reconstruct_loop ::
  "('f, 'h, 's) engine \<Rightarrow> 'h \<Rightarrow> string list \<Rightarrow> int list \<Rightarrow> string list \<Rightarrow> ('f, 'h, 's) world
     \<Rightarrow> ('f py_error + string list) \<times> ('f, 'h, 's) world" where
  "reconstruct_loop E h fragment_payloads [] reconstructed_bytes wd = (Inr reconstructed_bytes, wd)"
| "reconstruct_loop E h fragment_payloads (index # rest) reconstructed_bytes wd =
     (case call_get_fragment_partition E h fragment_payloads wd of
        (Inl f, wd1) \<Rightarrow> (Inl (EngineFault f), wd1)
      | (Inr (data_frags, parity_frags, missing_idxs), wd1) \<Rightarrow>
          (case data_frags of
             [] \<Rightarrow> (Inl IndexError, wd1)
           | d0 # _ \<Rightarrow>
               (case call_reconstruct E h data_frags parity_frags missing_idxs index
                       (int (length d0)) wd1 of
                  (Inl f, wd2) \<Rightarrow> (Inl (EngineFault f), wd2)
                | (Inr reconstructed, wd2) \<Rightarrow>
                    reconstruct_loop E h fragment_payloads rest
                      (reconstructed_bytes @ [reconstructed]) wd2)))"

text \<open>
  \<open>reconstruct\<close> sorts the list object it was given (\<open>indexes_to_reconstruct.sort()\<close>)
  and loops over a copy of it. \<open>fragment_payloads\<close> is read only: no statement assigns to
  it, and the engine is taken not to change a list passed to it. The second component of
  the result is the content of the caller's two lists, \<open>fragment_payloads\<close> and
  \<open>indexes_to_reconstruct\<close>, when the call ends, by return or by exception. The other
  operations of the module have no statement that writes to an argument and are functions
  of the values they are given.
\<close>

definition ECPyECLibDriver_reconstruct ::
  "('f, 'h, 's) engine \<Rightarrow> 'h ECPyECLibDriver \<Rightarrow> string list \<Rightarrow> int list \<Rightarrow> ('f, 'h, 's) world
     \<Rightarrow> ('f py_error + string list) \<times> (string list \<times> int list) \<times> ('f, 'h, 's) world" where
  "ECPyECLibDriver_reconstruct E self fragment_payloads indexes_to_reconstruct wd =
     (let sorted_indexes = sort indexes_to_reconstruct;
          (r, wd1) = reconstruct_loop E (cd_handle self) fragment_payloads sorted_indexes [] wd
      in (r, (fragment_payloads, sorted_indexes), wd1))"

definition ECPyECLibDriver_fragments_needed ::
  "('f, 'h, 's) engine \<Rightarrow> 'h ECPyECLibDriver \<Rightarrow> int list \<Rightarrow> ('f, 'h, 's) world
     \<Rightarrow> ('f py_error + int list) \<times> ('f, 'h, 's) world" where
  "ECPyECLibDriver_fragments_needed E self missing_fragment_indexes wd =
     (case call_get_required_fragments E missing_fragment_indexes wd of
        (Inl f, wd1) \<Rightarrow> (Inl (EngineFault f), wd1)
      | (Inr needed, wd1) \<Rightarrow> (Inr needed, wd1))"


subsection \<open>A small engine for concrete runs\<close>

text \<open>
  The theorems below hold for every engine. To run the drivers on concrete inputs an
  engine has to be chosen; this one stands for no real codec. It takes two data and two
  parity positions, reads an empty payload as a missing fragment, counts its calls in its
  state, and raises on a few inputs so that the failing paths can be run as well.
\<close>

definition sample_engine :: "(string, nat, nat) engine" where
  "sample_engine =
     \<lparr>pyeclib_c_init = (\<lambda>k m w type s. (Inr 7, Suc s)),
      pyeclib_c_encode = (\<lambda>h bytes s. (Inr [bytes], Suc s)),
      pyeclib_c_fragments_to_string = (\<lambda>h frags s.
         (if frags = [] then Inl ''no fragments''
          else if [] \<in> set frags then Inr None
          else Inr (Some (concat frags)), Suc s)),
      pyeclib_c_get_fragment_partition = (\<lambda>h frags s.
         (if 4 < length frags then Inl ''too many fragments''
          else Inr (filter (\<lambda>f. f \<noteq> []) (take 2 frags),
                    filter (\<lambda>f. f \<noteq> []) (drop 2 frags),
                    map int (filter (\<lambda>i. frags ! i = []) [0..<length frags])), Suc s)),
      pyeclib_c_decode = (\<lambda>h data_frags parity_frags missing_idxs frag_len s.
         (if parity_frags = [] then Inl ''no parity''
          else if 2 \<le> length missing_idxs then Inr []
          else Inr (data_frags @ parity_frags),
          Suc s)),
      pyeclib_c_reconstruct = (\<lambda>h data_frags parity_frags missing_idxs index frag_len s.
         (if index < 0 then Inl ''bad index''
          else Inr (replicate (nat frag_len) (if index < 2 then CHR ''d'' else CHR ''p'')),
          Suc s)),
      pyeclib_c_get_required_fragments = (\<lambda>missing_idxs s. (Inr missing_idxs, s))\<rparr>"

definition sample_world :: "(string, nat, nat) world" where
  "sample_world = \<lparr>eng_state = 0, calls = []\<rparr>"

definition sample_driver :: "nat ECPyECLibDriver" where
  "sample_driver =
     \<lparr>cd_k = 2, cd_m = 2, cd_type = ''rs_vand'', cd_w = 16, cd_hd = Some 3, cd_handle = 7\<rparr>"

section \<open>Properties of ECStripingDriver\<close>

lemma encode_loop_length:
  "length (fst (encode_loop n bytes fragment_size offset fragments)) = length fragments + n"
  by (induction n arbitrary: offset fragments) simp_all

lemma ECStripingDriver_encode_count:
  assumes "1 \<le> sd_k self"
  shows "\<exists>fragments. ECStripingDriver_encode self bytes = Inr fragments
           \<and> int (length fragments) = sd_k self"
proof -
  obtain fragments offset where
    loop: "encode_loop (nat (sd_k self - 1)) bytes
             (ceil_div (int (length bytes)) (sd_k self)) 0 [] = (fragments, offset)"
    by (cases "encode_loop (nat (sd_k self - 1)) bytes
                 (ceil_div (int (length bytes)) (sd_k self)) 0 []")
  have "length fragments = nat (sd_k self - 1)"
    using encode_loop_length [of "nat (sd_k self - 1)" bytes
        "ceil_div (int (length bytes)) (sd_k self)" 0 "[]"] loop
    by simp
  with assms loop show ?thesis
    by (simp add: ECStripingDriver_encode_def Let_def)
qed

lemma ECStripingDriver_decode_concat:
  "int (length fragment_payloads) = sd_k self \<Longrightarrow>
     ECStripingDriver_decode self fragment_payloads = Inr (concat fragment_payloads)"
proof -
  have "foldl (\<lambda>ret_string fragment. ret_string @ fragment) acc xs = acc @ concat xs"
    for acc :: string and xs
    by (induction xs arbitrary: acc) simp_all
  from this [of "[]" fragment_payloads]
  show "int (length fragment_payloads) = sd_k self \<Longrightarrow> ?thesis"
    by (simp add: ECStripingDriver_decode_def)
qed

text \<open>
  What \<open>encode\<close> returns for \<open>k \<ge> 1\<close>: the loop yields the slices
  \<open>bytes[i * fragment_size : fragment_size]\<close>, of which all but the first are empty,
  and the slices returned hold fewer bytes than the buffer as soon as the buffer has two
  bytes or more.
\<close>

lemma encode_loop_closed:
  "encode_loop n bytes fs off acc
     = (acc @ map (\<lambda>i. py_slice bytes (off + int i * fs) fs) [0..<n], off + int n * fs)"
proof (induction n arbitrary: off acc)
  case 0
  show ?case by simp
next
  case (Suc n)
  have "map (\<lambda>i. py_slice bytes (off + int i * fs) fs) [0..<Suc n]
          = py_slice bytes off fs # map (\<lambda>i. py_slice bytes (off + fs + int i * fs) fs) [0..<n]"
    by (simp add: upt_conv_Cons map_Suc_upt [symmetric] algebra_simps del: upt_Suc)
  with Suc.IH [of "off + fs" "acc @ [py_slice bytes off fs]"] show ?case
    by (simp add: algebra_simps del: upt_Suc)
qed

lemma py_slice_empty:
  "0 \<le> hi \<Longrightarrow> hi \<le> lo \<Longrightarrow> py_slice s lo hi = []"
  by (simp add: py_slice_def slice_bound_def Let_def)

lemma length_py_slice:
  "length (py_slice s lo hi)
     = nat (min (slice_bound (int (length s)) hi - slice_bound (int (length s)) lo)
                (int (length s) - slice_bound (int (length s)) lo))"
  by (auto simp: py_slice_def slice_bound_def Let_def min_def max_def)

lemma ceil_div_bounds:
  assumes "0 < k"
  shows "a \<le> k * ceil_div a k" and "k * ceil_div a k < a + k"
proof -
  have eq: "k * ((- a) div k) = - a - (- a) mod k"
    using mult_div_mod_eq [of k "- a"] by linarith
  have r: "0 \<le> (- a) mod k" "(- a) mod k < k"
    using assms by simp_all
  have c: "k * ceil_div a k = - (k * ((- a) div k))"
    by (simp add: ceil_div_def)
  from eq r c show "a \<le> k * ceil_div a k" and "k * ceil_div a k < a + k"
    by linarith+
qed

lemma striping_encode_loses_bytes:
  assumes k: "1 \<le> sd_k self" and len: "2 \<le> length bytes"
    and enc: "ECStripingDriver_encode self bytes = Inr fragments"
  shows "length (concat fragments) < length bytes"
proof -
  define L where "L = int (length bytes)"
  define fs where "fs = ceil_div L (sd_k self)"
  define P where "P = sd_k self * fs"
  define n where "n = nat (sd_k self - 1)"
  define lastf where "lastf = py_slice bytes (int n * fs) (L - (fs * sd_k self - 1))"
  have L2: "2 \<le> L" using len by (simp add: L_def)
  have b1: "L \<le> P" and b2: "P < L + sd_k self"
    using ceil_div_bounds [of "sd_k self" L] k by (simp_all add: P_def fs_def)
  have fs1: "1 \<le> fs"
  proof (rule ccontr)
    assume "\<not> 1 \<le> fs"
    then have "fs \<le> 0" by simp
    with k have "sd_k self * fs \<le> 0" by (simp add: mult_le_0_iff)
    with b1 L2 show False by (simp add: P_def)
  qed
  have frs: "fragments = map (\<lambda>i. py_slice bytes (int i * fs) fs) [0..<n] @ [lastf]"
    using enc k
    by (simp add: ECStripingDriver_encode_def encode_loop_closed Let_def L_def fs_def n_def
        lastf_def)
  have "int (length lastf)
      = max 0 (min (slice_bound L (L - (fs * sd_k self - 1)) - slice_bound L (int n * fs))
                   (L - slice_bound L (int n * fs)))"
    unfolding lastf_def length_py_slice L_def by (simp add: max_def)
  moreover have "fs * sd_k self = P" by (simp add: P_def)
  ultimately have lastlen: "int (length lastf)
      = max 0 (min (slice_bound L (L - (P - 1)) - slice_bound L (int n * fs))
                   (L - slice_bound L (int n * fs)))"
    by simp
  show ?thesis
  proof (cases "sd_k self = 1")
    case True
    then have "n = 0" "P = fs" by (simp_all add: n_def P_def)
    with frs lastlen b1 b2 True L2 have "int (length (concat fragments)) < L"
      by (simp add: slice_bound_def split: if_splits)
    then show ?thesis by (simp add: L_def)
  next
    case False
    with k have k2: "2 \<le> sd_k self" by simp
    then obtain n' where n': "n = Suc n'"
      by (cases n) (auto simp: n_def)
    have int_n: "int n = sd_k self - 1" using k by (simp add: n_def)
    have off: "int n * fs = P - fs"
      by (simp add: int_n P_def algebra_simps)
    have mid: "py_slice bytes (int (Suc i) * fs) fs = []" for i
    proof (rule py_slice_empty)
      show "0 \<le> fs" using fs1 by simp
      have "fs * 1 \<le> fs * int (Suc i)"
        using fs1 by (intro mult_left_mono) simp_all
      then show "fs \<le> int (Suc i) * fs" by (simp add: mult.commute)
    qed
    have "map (\<lambda>i. py_slice bytes (int i * fs) fs) [0..<n]
            = py_slice bytes 0 fs # map (\<lambda>i. py_slice bytes (int (Suc i) * fs) fs) [0..<n']"
      unfolding n' by (simp add: upt_conv_Cons map_Suc_upt [symmetric] del: upt_Suc)
    also have "\<dots> = py_slice bytes 0 fs # replicate n' []"
      by (simp only: mid map_replicate_const) simp
    finally have "concat fragments = py_slice bytes 0 fs @ lastf"
      using frs by simp
    then have total: "int (length (concat fragments)) = min fs L + int (length lastf)"
      using fs1 by (simp add: length_py_slice slice_bound_def L_def)
    have P2: "2 * fs \<le> P"
      using k2 fs1 mult_right_mono [of 2 "sd_k self" fs] by (simp add: P_def)
    have fsL: "2 * (fs - 1) < L"
    proof -
      have "2 * (fs - 1) \<le> sd_k self * (fs - 1)"
        using k2 fs1 by (intro mult_right_mono) simp_all
      also have "\<dots> = P - sd_k self" by (simp add: P_def algebra_simps)
      finally show ?thesis using b2 by simp
    qed
    have "int (length (concat fragments)) < L"
    proof (cases "sd_k self = 2")
      case True
      then have "P = 2 * fs" by (simp add: P_def)
      with total lastlen off b1 b2 fs1 fsL L2 True show ?thesis
        by (simp add: slice_bound_def split: if_splits)
    next
      case False
      with k2 have "3 \<le> sd_k self" by simp
      then have P3: "3 * fs \<le> P"
        using fs1 mult_right_mono [of 3 "sd_k self" fs] by (simp add: P_def)
      with total lastlen off b1 fs1 fsL L2 P2 show ?thesis
        by (simp add: slice_bound_def split: if_splits)
    qed
    then show ?thesis by (simp add: L_def)
  qed
qed

text \<open>
  Claim C1. Decoding the fragments of \<open>encode(b)\<close> in index order gives \<open>b\<close> back; for
  \<open>k = 3\<close> and \<open>hello world\<close> there are three fragments whose concatenation is the
  buffer. The code at that input: the driver is built, \<open>encode\<close> returns the fragments
  \<open>hell\<close>, empty, empty (each slice ends at \<open>fragment_size\<close>, not at
  \<open>offset + fragment_size\<close>, and the last one at \<open>last_fragment_size = 0\<close>), and
  \<open>decode\<close> of these three returns \<open>hell\<close>.
\<close>

theorem striping_roundtrip_hello_world:
  "(ECStripingDriver_init 3 0 :: string py_error + ECStripingDriver) = Inr \<lparr>sd_k = 3, sd_m = 0\<rparr>
   \<and> (ECStripingDriver_encode \<lparr>sd_k = 3, sd_m = 0\<rparr> ''hello world'' :: string py_error + string list)
       = Inr [''hell'', [], []]
   \<and> (ECStripingDriver_decode \<lparr>sd_k = 3, sd_m = 0\<rparr> [''hell'', [], []] :: string py_error + string)
       = Inr ''hell''
   \<and> concat [''hell'', [], []] \<noteq> ''hello world''"
  by (simp add: ECStripingDriver_init_def ECStripingDriver_encode_def ECStripingDriver_decode_def
      ceil_div_def py_slice_def slice_bound_def numeral_eq_Suc Let_def)

text \<open>
  Claim C2. \<open>encode\<close> on a buffer of length \<open>L\<close> returns \<open>k\<close> fragments whose lengths
  sum to \<open>L\<close>, the first \<open>k - 1\<close> of length \<open>ceil(L/k)\<close>. The code at \<open>k = 3\<close> and the
  11 bytes of \<open>hello world\<close>, where \<open>ceil(11/3) = 4\<close>: three fragments of lengths 4, 0
  and 0, which sum to 4; the second fragment is empty where the claim has 4 bytes. The
  same lengths come out for 12 bytes (\<open>L\<close> divisible by \<open>k\<close>), and 1, 0 and 0 for
  2 bytes (\<open>L < k\<close>).
\<close>

theorem striping_encode_fragment_lengths:
  "map_sum id (map length)
     (ECStripingDriver_encode \<lparr>sd_k = 3, sd_m = 0\<rparr> ''hello world'' :: string py_error + string list)
     = Inr [4, 0, 0]
   \<and> ceil_div (int (length ''hello world'')) 3 = 4
   \<and> sum_list [4, 0, 0 :: nat] \<noteq> length ''hello world''
   \<and> map_sum id (map length)
       (ECStripingDriver_encode \<lparr>sd_k = 3, sd_m = 0\<rparr> ''hello worlds'' :: string py_error + string list)
     = Inr [4, 0, 0]
   \<and> map_sum id (map length)
       (ECStripingDriver_encode \<lparr>sd_k = 3, sd_m = 0\<rparr> ''hi'' :: string py_error + string list)
     = Inr [1, 0, 0]"
  by (simp add: ECStripingDriver_encode_def ceil_div_def py_slice_def slice_bound_def
      numeral_eq_Suc Let_def)

text \<open>
  Claim C6. \<open>decode\<close> concatenates when exactly \<open>k\<close> payloads are given and fails with
  the fragment-count error otherwise. The code with \<open>k = 3\<close>: three payloads are
  concatenated in the order given; two payloads, and four, end in \<open>NameError\<close>, raised
  by the name \<open>ECDriverError\<close> in the \<open>raise\<close> statement, and not in the error the
  docstring announces.
\<close>

theorem striping_decode_wrong_count:
  "(ECStripingDriver_decode \<lparr>sd_k = 3, sd_m = 0\<rparr> [''ab'', ''cd'', ''e''] :: string py_error + string)
     = Inr ''abcde''
   \<and> (ECStripingDriver_decode \<lparr>sd_k = 3, sd_m = 0\<rparr> [''ab'', ''cd''] :: string py_error + string)
     = Inl NameError
   \<and> (ECStripingDriver_decode \<lparr>sd_k = 3, sd_m = 0\<rparr> [''ab'', ''cd'', ''e'', ''f''] :: string py_error + string)
     = Inl NameError"
  by (simp add: ECStripingDriver_decode_def)


section \<open>Properties of ECPyECLibDriver\<close>

lemmas call_defs = call_init_def call_encode_def call_fragments_to_string_def
  call_get_fragment_partition_def call_decode_def call_reconstruct_def
  call_get_required_fragments_def

lemmas ec_consts = ec_types_def ec_rs_vand_def ec_rs_cauchy_orig_def ec_flat_xor_3_def
  ec_flat_xor_4_def ec_rs_vand_best_w_def ec_default_w_def ec_rs_cauchy_best_w_def

subsection \<open>Construction\<close>

text \<open>
  Claim C8. After a successful construction the field width \<open>w\<close> and the distance
  \<open>hd\<close> are what the \<open>if\<close>/\<open>elif\<close> chain assigns for the scheme: 16 and \<open>m + 1\<close>
  for \<open>rs_vand\<close>, 4 and \<open>m + 1\<close> for \<open>rs_cauchy_orig\<close>, 32 and 3 for \<open>flat_xor_3\<close>,
  32 and 4 for \<open>flat_xor_4\<close>. The constructor takes \<open>k\<close>, \<open>m\<close> and the scheme name and
  nothing else, so neither value comes from the caller; the \<open>w\<close> stored is the one
  handed to \<open>pyeclib_c.init\<close>, in the one call the constructor makes.
\<close>

theorem coded_init_w_hd:
  assumes "ECPyECLibDriver_init E k m type wd = (Inr self, wd')"
  shows "cd_k self = k \<and> cd_m self = m \<and> cd_type self = type
         \<and> (cd_w self, cd_hd self) = w_hd_of_type type m
         \<and> (type = ''rs_vand'' \<and> cd_w self = 16 \<and> cd_hd self = Some (m + 1)
            \<or> type = ''rs_cauchy_orig'' \<and> cd_w self = 4 \<and> cd_hd self = Some (m + 1)
            \<or> type = ''flat_xor_3'' \<and> cd_w self = 32 \<and> cd_hd self = Some 3
            \<or> type = ''flat_xor_4'' \<and> cd_w self = 32 \<and> cd_hd self = Some 4)
         \<and> (\<exists>h. calls wd' = calls wd @ [EvInit k m (cd_w self) type (Inr h)])"
  using assms
  by (auto simp: ECPyECLibDriver_init_def w_hd_of_type_def ec_consts call_init_def Let_def
      split: if_splits prod.splits sum.splits)

theorem coded_init_w_hd_witness:
  "ECPyECLibDriver_init sample_engine 4 2 ''rs_cauchy_orig'' sample_world
     = (Inr \<lparr>cd_k = 4, cd_m = 2, cd_type = ''rs_cauchy_orig'', cd_w = 4, cd_hd = Some 3,
            cd_handle = 7\<rparr>,
        \<lparr>eng_state = 1, calls = [EvInit 4 2 4 ''rs_cauchy_orig'' (Inr 7)]\<rparr>)
   \<and> w_hd_of_type ''rs_cauchy_orig'' 2 = (4, Some 3)"
proof -
  have run: "ECPyECLibDriver_init sample_engine 4 2 ''rs_cauchy_orig'' sample_world
     = (Inr \<lparr>cd_k = 4, cd_m = 2, cd_type = ''rs_cauchy_orig'', cd_w = 4, cd_hd = Some 3,
            cd_handle = 7\<rparr>,
        \<lparr>eng_state = 1, calls = [EvInit 4 2 4 ''rs_cauchy_orig'' (Inr 7)]\<rparr>)"
    by (simp add: ECPyECLibDriver_init_def w_hd_of_type_def ec_consts call_init_def
        sample_engine_def sample_world_def)
  from coded_init_w_hd [OF run] run show ?thesis by simp
qed

subsection \<open>The raise statements\<close>

lemma reconstruct_loop_not_ECDriverError:
  "fst (reconstruct_loop E h fp idxs acc wd) \<noteq> Inl (ECDriverError msg)"
proof (induction idxs arbitrary: acc wd)
  case Nil
  show ?case by simp
next
  case (Cons index rest)
  show ?case
    by (simp add: Cons.IH split: prod.splits sum.splits list.splits)
qed

lemma reconstruct_loop_calls_append:
  "\<exists>new. calls (snd (reconstruct_loop E h fp idxs acc wd)) = calls wd @ new"
proof (induction idxs arbitrary: acc wd)
  case Nil
  show ?case by simp
next
  case (Cons index rest)
  show ?case
  proof (cases "call_get_fragment_partition E h fp wd")
    case (Pair r wd1)
    have c1: "\<exists>new. calls wd1 = calls wd @ new"
      using Pair by (auto simp: call_get_fragment_partition_def split: prod.splits)
    show ?thesis
    proof (cases r)
      case (Inl f)
      with Pair c1 show ?thesis by simp
    next
      case (Inr part)
      obtain d p mi where part: "part = (d, p, mi)" by (cases part)
      show ?thesis
      proof (cases d)
        case Nil
        with Pair Inr part c1 show ?thesis by simp
      next
        case (Cons d0 ds)
        obtain r2 wd2 where
          rc: "call_reconstruct E h d p mi index (int (length d0)) wd1 = (r2, wd2)"
          by (cases "call_reconstruct E h d p mi index (int (length d0)) wd1")
        have c2: "\<exists>new. calls wd2 = calls wd1 @ new"
          using rc by (auto simp: call_reconstruct_def split: prod.splits)
        show ?thesis
        proof (cases r2)
          case (Inl f)
          with Pair Inr part Cons rc c1 c2 show ?thesis by auto
        next
          case (Inr reconstructed)
          from Cons.IH [of "acc @ [reconstructed]" wd2] c1 c2
          have "\<exists>new. calls (snd (reconstruct_loop E h fp rest (acc @ [reconstructed]) wd2))
                  = calls wd @ new"
            by auto
          with Pair \<open>r = Inr part\<close> part Cons rc Inr show ?thesis by simp
        qed
      qed
    qed
  qed
qed

text \<open>
  Claim C9. Each declared failure branch (a scheme name outside \<open>ec_types\<close>, a fault of
  the first \<open>fragments_to_string\<close> call of \<open>decode\<close>, \<open>ECStripingDriver\<close> built with
  \<open>m \<noteq> 0\<close>, its \<open>decode\<close> or \<open>reconstruct\<close> given a number of payloads other than
  \<open>k\<close>) ends in \<open>NameError\<close>, and no operation of the module, on any input and with
  any engine, ends in \<open>ECDriverError\<close>.
\<close>

theorem failure_branches_raise_NameError:
  fixes E :: "('f, 'h, 's) engine"
  shows
  "(type \<notin> set ec_types \<longrightarrow> ECPyECLibDriver_init E k m type wd = (Inl NameError, wd))
   \<and> (fst (pyeclib_c_fragments_to_string E (cd_handle self) fp (eng_state wd)) = Inl f
        \<longrightarrow> fst (ECPyECLibDriver_decode E self fp wd) = Inl NameError)
   \<and> (m \<noteq> 0 \<longrightarrow> (ECStripingDriver_init k m :: 'f py_error + ECStripingDriver) = Inl NameError)
   \<and> (int (length fp) \<noteq> sd_k sd \<longrightarrow>
          (ECStripingDriver_decode sd fp :: 'f py_error + string) = Inl NameError
        \<and> (ECStripingDriver_reconstruct sd fp idxs :: 'f py_error + string list) = Inl NameError)
   \<and> fst (ECPyECLibDriver_init E k m type wd) \<noteq> Inl (ECDriverError msg)
   \<and> fst (ECPyECLibDriver_encode E self bytes wd) \<noteq> Inl (ECDriverError msg)
   \<and> fst (ECPyECLibDriver_decode E self fp wd) \<noteq> Inl (ECDriverError msg)
   \<and> fst (ECPyECLibDriver_reconstruct E self fp idxs wd) \<noteq> Inl (ECDriverError msg)
   \<and> fst (ECPyECLibDriver_fragments_needed E self idxs wd) \<noteq> Inl (ECDriverError msg)
   \<and> (ECStripingDriver_init k m :: 'f py_error + ECStripingDriver) \<noteq> Inl (ECDriverError msg)
   \<and> (ECStripingDriver_encode sd bytes :: 'f py_error + string list) \<noteq> Inl (ECDriverError msg)
   \<and> (ECStripingDriver_decode sd fp :: 'f py_error + string) \<noteq> Inl (ECDriverError msg)
   \<and> (ECStripingDriver_reconstruct sd fp idxs :: 'f py_error + string list)
        \<noteq> Inl (ECDriverError msg)"
proof -
  have a: "type \<notin> set ec_types \<longrightarrow> ECPyECLibDriver_init E k m type wd = (Inl NameError, wd)"
    by (simp add: ECPyECLibDriver_init_def)
  have b: "fst (pyeclib_c_fragments_to_string E (cd_handle self) fp (eng_state wd)) = Inl f
        \<longrightarrow> fst (ECPyECLibDriver_decode E self fp wd) = Inl NameError"
    by (auto simp: ECPyECLibDriver_decode_def call_fragments_to_string_def split: prod.splits)
  have c: "m \<noteq> 0 \<longrightarrow> ECStripingDriver_init k m = Inl NameError"
    by (simp add: ECStripingDriver_init_def)
  have d: "int (length fp) \<noteq> sd_k sd \<longrightarrow>
          ECStripingDriver_decode sd fp = Inl NameError
        \<and> ECStripingDriver_reconstruct sd fp idxs = Inl NameError"
    by (simp add: ECStripingDriver_decode_def ECStripingDriver_reconstruct_def)
  have e1: "fst (ECPyECLibDriver_init E k m type wd) \<noteq> Inl (ECDriverError msg)"
    by (simp add: ECPyECLibDriver_init_def split: prod.splits sum.splits)
  have e2: "fst (ECPyECLibDriver_encode E self bytes wd) \<noteq> Inl (ECDriverError msg)"
    by (simp add: ECPyECLibDriver_encode_def split: prod.splits sum.splits)
  have e3: "fst (ECPyECLibDriver_decode E self fp wd) \<noteq> Inl (ECDriverError msg)"
    by (simp add: ECPyECLibDriver_decode_def split: prod.splits sum.splits option.splits list.splits)
  have e4: "fst (ECPyECLibDriver_reconstruct E self fp idxs wd) \<noteq> Inl (ECDriverError msg)"
    using reconstruct_loop_not_ECDriverError [of E "cd_handle self" fp "sort idxs" "[]" wd msg]
    by (auto simp: ECPyECLibDriver_reconstruct_def Let_def split: prod.splits)
  have e5: "fst (ECPyECLibDriver_fragments_needed E self idxs wd) \<noteq> Inl (ECDriverError msg)"
    by (simp add: ECPyECLibDriver_fragments_needed_def split: prod.splits sum.splits)
  have e6: "ECStripingDriver_init k m \<noteq> Inl (ECDriverError msg)"
    by (simp add: ECStripingDriver_init_def)
  have e7: "ECStripingDriver_encode sd bytes \<noteq> Inl (ECDriverError msg)"
    by (simp add: ECStripingDriver_encode_def Let_def split: prod.splits)
  have e8: "ECStripingDriver_decode sd fp \<noteq> Inl (ECDriverError msg)"
    by (simp add: ECStripingDriver_decode_def)
  have e9: "ECStripingDriver_reconstruct sd fp idxs \<noteq> Inl (ECDriverError msg)"
    by (simp add: ECStripingDriver_reconstruct_def)
  from a b c d e1 e2 e3 e4 e5 e6 e7 e8 e9 show ?thesis by blast
qed

theorem failure_branches_raise_NameError_witness:
  "''reed_solomon'' \<notin> set ec_types
   \<and> ECPyECLibDriver_init sample_engine 4 1 ''reed_solomon'' sample_world
       = (Inl NameError, sample_world)
   \<and> fst (pyeclib_c_fragments_to_string sample_engine (cd_handle sample_driver) []
            (eng_state sample_world)) = Inl ''no fragments''
   \<and> fst (ECPyECLibDriver_decode sample_engine sample_driver [] sample_world) = Inl NameError
   \<and> (1::int) \<noteq> 0
   \<and> (ECStripingDriver_init 4 1 :: string py_error + ECStripingDriver) = Inl NameError
   \<and> int (length ([] :: string list)) \<noteq> sd_k \<lparr>sd_k = 3, sd_m = 0\<rparr>
   \<and> (ECStripingDriver_decode \<lparr>sd_k = 3, sd_m = 0\<rparr> [] :: string py_error + string)
       = Inl NameError
   \<and> (ECStripingDriver_reconstruct \<lparr>sd_k = 3, sd_m = 0\<rparr> [] [1] :: string py_error + string list)
       = Inl NameError"
proof -
  have h1: "''reed_solomon'' \<notin> set ec_types"
    by (simp add: ec_consts)
  have h2: "fst (pyeclib_c_fragments_to_string sample_engine (cd_handle sample_driver) []
            (eng_state sample_world)) = Inl ''no fragments''"
    by (simp add: sample_engine_def)
  have h3: "int (length ([] :: string list)) \<noteq> sd_k \<lparr>sd_k = 3, sd_m = 0\<rparr>"
    by simp
  note t = failure_branches_raise_NameError [where type = "''reed_solomon''"
      and E = sample_engine and k = 4 and m = 1 and wd = sample_world and self = sample_driver
      and fp = "[]" and f = "''no fragments''" and sd = "\<lparr>sd_k = 3, sd_m = 0\<rparr>"
      and idxs = "[1]"]
  from t h1 h2 h3 show ?thesis by simp
qed

subsection \<open>The order of reconstruction\<close>





subsection \<open>The fragment length\<close>

text \<open>
  Claim C10. The repair path of \<open>decode\<close> and each round of the loop of \<open>reconstruct\<close>
  pass \<open>len(data_frags[0])\<close> as the fragment length: with a data list \<open>d0 # ds\<close> the
  engine is called with the length of \<open>d0\<close>. When the partition returns an empty data
  list, the operation ends in \<open>IndexError\<close> right after the partition call, and the
  engine's \<open>decode\<close>, or \<open>reconstruct\<close>, is not called.
\<close>

theorem empty_data_fragments_IndexError:
  fixes E :: "('f, 'h, 's) engine"
  shows
  "(pyeclib_c_fragments_to_string E (cd_handle self) fp (eng_state wd) = (Inr None, s1)
      \<and> pyeclib_c_get_fragment_partition E (cd_handle self) fp s1 = (Inr ([], p, mi), s2)
    \<longrightarrow> ECPyECLibDriver_decode E self fp wd
          = (Inl IndexError,
             \<lparr>eng_state = s2,
              calls = calls wd @ [EvFragmentsToString (cd_handle self) fp (Inr None),
                                  EvGetFragmentPartition (cd_handle self) fp (Inr ([], p, mi))]\<rparr>))
   \<and> (pyeclib_c_fragments_to_string E (cd_handle self) fp (eng_state wd) = (Inr None, s1)
      \<and> pyeclib_c_get_fragment_partition E (cd_handle self) fp s1 = (Inr (d0 # ds, p, mi), s2)
    \<longrightarrow> take 3 (drop (length (calls wd)) (calls (snd (ECPyECLibDriver_decode E self fp wd))))
          = [EvFragmentsToString (cd_handle self) fp (Inr None),
             EvGetFragmentPartition (cd_handle self) fp (Inr (d0 # ds, p, mi)),
             EvDecode (cd_handle self) (d0 # ds) p mi (int (length d0))
               (fst (pyeclib_c_decode E (cd_handle self) (d0 # ds) p mi (int (length d0)) s2))])
   \<and> (pyeclib_c_get_fragment_partition E h fp (eng_state wd) = (Inr ([], p, mi), s1)
    \<longrightarrow> reconstruct_loop E h fp (index # rest) acc wd
          = (Inl IndexError,
             \<lparr>eng_state = s1,
              calls = calls wd @ [EvGetFragmentPartition h fp (Inr ([], p, mi))]\<rparr>))
   \<and> (pyeclib_c_get_fragment_partition E h fp (eng_state wd) = (Inr (d0 # ds, p, mi), s1)
    \<longrightarrow> take 2 (drop (length (calls wd))
                  (calls (snd (reconstruct_loop E h fp (index # rest) acc wd))))
          = [EvGetFragmentPartition h fp (Inr (d0 # ds, p, mi)),
             EvReconstruct h (d0 # ds) p mi index (int (length d0))
               (fst (pyeclib_c_reconstruct E h (d0 # ds) p mi index (int (length d0)) s1))])
   \<and> (idxs \<noteq> []
      \<and> pyeclib_c_get_fragment_partition E (cd_handle self) fp (eng_state wd)
          = (Inr ([], p, mi), s1)
    \<longrightarrow> ECPyECLibDriver_reconstruct E self fp idxs wd
          = (Inl IndexError, (fp, sort idxs),
             \<lparr>eng_state = s1,
              calls = calls wd @ [EvGetFragmentPartition (cd_handle self) fp (Inr ([], p, mi))]\<rparr>))"
proof -
  have a: "pyeclib_c_fragments_to_string E (cd_handle self) fp (eng_state wd) = (Inr None, s1)
      \<and> pyeclib_c_get_fragment_partition E (cd_handle self) fp s1 = (Inr ([], p, mi), s2)
    \<longrightarrow> ECPyECLibDriver_decode E self fp wd
          = (Inl IndexError,
             \<lparr>eng_state = s2,
              calls = calls wd @ [EvFragmentsToString (cd_handle self) fp (Inr None),
                                  EvGetFragmentPartition (cd_handle self) fp (Inr ([], p, mi))]\<rparr>)"
    by (simp add: ECPyECLibDriver_decode_def call_fragments_to_string_def
        call_get_fragment_partition_def)
  have b: "pyeclib_c_fragments_to_string E (cd_handle self) fp (eng_state wd) = (Inr None, s1)
      \<and> pyeclib_c_get_fragment_partition E (cd_handle self) fp s1 = (Inr (d0 # ds, p, mi), s2)
    \<longrightarrow> take 3 (drop (length (calls wd)) (calls (snd (ECPyECLibDriver_decode E self fp wd))))
          = [EvFragmentsToString (cd_handle self) fp (Inr None),
             EvGetFragmentPartition (cd_handle self) fp (Inr (d0 # ds, p, mi)),
             EvDecode (cd_handle self) (d0 # ds) p mi (int (length d0))
               (fst (pyeclib_c_decode E (cd_handle self) (d0 # ds) p mi (int (length d0)) s2))]"
    by (simp add: ECPyECLibDriver_decode_def call_fragments_to_string_def
        call_get_fragment_partition_def call_decode_def split: prod.splits sum.splits)
  have c: "pyeclib_c_get_fragment_partition E h fp (eng_state wd) = (Inr ([], p, mi), s1)
    \<longrightarrow> reconstruct_loop E h fp (index # rest) acc wd
          = (Inl IndexError,
             \<lparr>eng_state = s1,
              calls = calls wd @ [EvGetFragmentPartition h fp (Inr ([], p, mi))]\<rparr>)"
    for h index rest acc
    by (simp add: call_get_fragment_partition_def)
  have d: "pyeclib_c_get_fragment_partition E h fp (eng_state wd) = (Inr (d0 # ds, p, mi), s1)
    \<longrightarrow> take 2 (drop (length (calls wd))
                  (calls (snd (reconstruct_loop E h fp (index # rest) acc wd))))
          = [EvGetFragmentPartition h fp (Inr (d0 # ds, p, mi)),
             EvReconstruct h (d0 # ds) p mi index (int (length d0))
               (fst (pyeclib_c_reconstruct E h (d0 # ds) p mi index (int (length d0)) s1))]"
  proof
    assume part: "pyeclib_c_get_fragment_partition E h fp (eng_state wd)
                    = (Inr (d0 # ds, p, mi), s1)"
    obtain r s2 where
      rc: "pyeclib_c_reconstruct E h (d0 # ds) p mi index (int (length d0)) s1 = (r, s2)"
      by (cases "pyeclib_c_reconstruct E h (d0 # ds) p mi index (int (length d0)) s1")
    define wd2 :: "('f, 'h, 's) world" where
      "wd2 = \<lparr>eng_state = s2,
              calls = calls wd @ [EvGetFragmentPartition h fp (Inr (d0 # ds, p, mi)),
                                  EvReconstruct h (d0 # ds) p mi index (int (length d0)) r]\<rparr>"
    show "take 2 (drop (length (calls wd))
                  (calls (snd (reconstruct_loop E h fp (index # rest) acc wd))))
          = [EvGetFragmentPartition h fp (Inr (d0 # ds, p, mi)),
             EvReconstruct h (d0 # ds) p mi index (int (length d0))
               (fst (pyeclib_c_reconstruct E h (d0 # ds) p mi index (int (length d0)) s1))]"
    proof (cases r)
      case (Inl f)
      with part rc show ?thesis
        by (simp add: call_get_fragment_partition_def call_reconstruct_def)
    next
      case (Inr reconstructed)
      have step: "reconstruct_loop E h fp (index # rest) acc wd
                    = reconstruct_loop E h fp rest (acc @ [reconstructed]) wd2"
        using part rc Inr
        by (simp add: call_get_fragment_partition_def call_reconstruct_def wd2_def)
      obtain new where
        "calls (snd (reconstruct_loop E h fp rest (acc @ [reconstructed]) wd2)) = calls wd2 @ new"
        using reconstruct_loop_calls_append [of E h fp rest "acc @ [reconstructed]" wd2]
        by blast
      with step rc show ?thesis
        by (simp add: wd2_def)
    qed
  qed
  have e: "idxs \<noteq> []
      \<and> pyeclib_c_get_fragment_partition E (cd_handle self) fp (eng_state wd)
          = (Inr ([], p, mi), s1)
    \<longrightarrow> ECPyECLibDriver_reconstruct E self fp idxs wd
          = (Inl IndexError, (fp, sort idxs),
             \<lparr>eng_state = s1,
              calls = calls wd @ [EvGetFragmentPartition (cd_handle self) fp (Inr ([], p, mi))]\<rparr>)"
  proof
    assume h: "idxs \<noteq> []
      \<and> pyeclib_c_get_fragment_partition E (cd_handle self) fp (eng_state wd)
          = (Inr ([], p, mi), s1)"
    then have "sort idxs \<noteq> []"
      by (metis length_sort length_0_conv)
    then obtain index rest where "sort idxs = index # rest"
      by (cases "sort idxs") auto
    with h c [of "cd_handle self" index rest "[]"] show "ECPyECLibDriver_reconstruct E self fp idxs wd
          = (Inl IndexError, (fp, sort idxs),
             \<lparr>eng_state = s1,
              calls = calls wd @ [EvGetFragmentPartition (cd_handle self) fp (Inr ([], p, mi))]\<rparr>)"
      by (simp add: ECPyECLibDriver_reconstruct_def Let_def)
  qed
  from a b c d e show ?thesis by blast
qed

theorem empty_data_fragments_IndexError_witness:
  "ECPyECLibDriver_decode sample_engine sample_driver [[], [], ''pq''] sample_world
     = (Inl IndexError,
        \<lparr>eng_state = 2,
         calls = [EvFragmentsToString 7 [[], [], ''pq''] (Inr None),
                  EvGetFragmentPartition 7 [[], [], ''pq''] (Inr ([], [''pq''], [0, 1]))]\<rparr>)
   \<and> take 3 (calls (snd (ECPyECLibDriver_decode sample_engine sample_driver [''ab'', [], ''pq'']
                        sample_world)))
     = [EvFragmentsToString 7 [''ab'', [], ''pq''] (Inr None),
        EvGetFragmentPartition 7 [''ab'', [], ''pq''] (Inr ([''ab''], [''pq''], [1])),
        EvDecode 7 [''ab''] [''pq''] [1] 2 (Inr [''ab'', ''pq''])]
   \<and> reconstruct_loop sample_engine 7 [[], [], ''pq''] [0, 3] [] sample_world
     = (Inl IndexError,
        \<lparr>eng_state = 1,
         calls = [EvGetFragmentPartition 7 [[], [], ''pq''] (Inr ([], [''pq''], [0, 1]))]\<rparr>)
   \<and> take 2 (calls (snd (reconstruct_loop sample_engine 7 [''abc'', [], ''pq''] [1, 3] []
                        sample_world)))
     = [EvGetFragmentPartition 7 [''abc'', [], ''pq''] (Inr ([''abc''], [''pq''], [1])),
        EvReconstruct 7 [''abc''] [''pq''] [1] 1 3 (Inr ''ddd'')]
   \<and> ECPyECLibDriver_reconstruct sample_engine sample_driver [[], [], ''pq''] [3, 0] sample_world
     = (Inl IndexError, ([[], [], ''pq''], [0, 3]),
        \<lparr>eng_state = 1,
         calls = [EvGetFragmentPartition 7 [[], [], ''pq''] (Inr ([], [''pq''], [0, 1]))]\<rparr>)"
proof -
  have f0: "pyeclib_c_fragments_to_string sample_engine (cd_handle sample_driver)
              [[], [], ''pq''] (eng_state sample_world) = (Inr None, 1)"
    by (simp add: sample_engine_def sample_world_def)
  have g0: "pyeclib_c_get_fragment_partition sample_engine (cd_handle sample_driver)
              [[], [], ''pq''] 1 = (Inr ([], [''pq''], [0, 1]), 2)"
    by (simp add: sample_engine_def numeral_eq_Suc)
  have f1: "pyeclib_c_fragments_to_string sample_engine (cd_handle sample_driver)
              [''ab'', [], ''pq''] (eng_state sample_world) = (Inr None, 1)"
    by (simp add: sample_engine_def sample_world_def)
  have g1: "pyeclib_c_get_fragment_partition sample_engine (cd_handle sample_driver)
              [''ab'', [], ''pq''] 1 = (Inr ([''ab''], [''pq''], [1]), 2)"
    by (simp add: sample_engine_def numeral_eq_Suc)
  have g2: "pyeclib_c_get_fragment_partition sample_engine 7 [[], [], ''pq'']
              (eng_state sample_world) = (Inr ([], [''pq''], [0, 1]), 1)"
    by (simp add: sample_engine_def sample_world_def numeral_eq_Suc)
  have g3: "pyeclib_c_get_fragment_partition sample_engine 7 [''abc'', [], ''pq'']
              (eng_state sample_world) = (Inr ([''abc''], [''pq''], [1]), 1)"
    by (simp add: sample_engine_def sample_world_def numeral_eq_Suc)
  have g4: "[3, 0 :: int] \<noteq> []
            \<and> pyeclib_c_get_fragment_partition sample_engine (cd_handle sample_driver)
                [[], [], ''pq''] (eng_state sample_world) = (Inr ([], [''pq''], [0, 1]), 1)"
    by (simp add: sample_engine_def sample_world_def sample_driver_def numeral_eq_Suc)
  note t0 = empty_data_fragments_IndexError [where E = sample_engine and self = sample_driver
      and wd = sample_world and fp = "[[], [], ''pq'']" and p = "[''pq'']" and mi = "[0, 1]"
      and ?s1.0 = 1 and ?s2.0 = 2 and h = 7 and index = 0 and rest = "[3]" and acc = "[]"
      and idxs = "[3, 0]"]
  note t1 = empty_data_fragments_IndexError [where E = sample_engine and self = sample_driver
      and wd = sample_world and fp = "[''ab'', [], ''pq'']" and p = "[''pq'']" and mi = "[1]"
      and ?d0.0 = "''ab''" and ds = "[]" and ?s1.0 = 1 and ?s2.0 = 2]
  note t2 = empty_data_fragments_IndexError [where E = sample_engine
      and wd = sample_world and fp = "[''abc'', [], ''pq'']" and p = "[''pq'']" and mi = "[1]"
      and ?d0.0 = "''abc''" and ds = "[]" and ?s1.0 = 1 and h = 7 and index = 1
      and rest = "[3]" and acc = "[]"]
  have a: "ECPyECLibDriver_decode sample_engine sample_driver [[], [], ''pq''] sample_world
     = (Inl IndexError,
        \<lparr>eng_state = 2,
         calls = [EvFragmentsToString 7 [[], [], ''pq''] (Inr None),
                  EvGetFragmentPartition 7 [[], [], ''pq''] (Inr ([], [''pq''], [0, 1]))]\<rparr>)"
    using t0 f0 g0 by (simp add: sample_world_def sample_driver_def)
  have b: "take 3 (calls (snd (ECPyECLibDriver_decode sample_engine sample_driver
                                 [''ab'', [], ''pq''] sample_world)))
     = [EvFragmentsToString 7 [''ab'', [], ''pq''] (Inr None),
        EvGetFragmentPartition 7 [''ab'', [], ''pq''] (Inr ([''ab''], [''pq''], [1])),
        EvDecode 7 [''ab''] [''pq''] [1] 2 (Inr [''ab'', ''pq''])]"
  proof -
    have dc: "fst (pyeclib_c_decode sample_engine (cd_handle sample_driver) [''ab''] [''pq''] [1]
                (int (length ''ab'')) 2) = Inr [''ab'', ''pq'']"
      by (simp add: sample_engine_def)
    have "cd_handle sample_driver = 7" "calls sample_world = []"
      by (simp_all add: sample_driver_def sample_world_def)
    with t1 f1 g1 dc show ?thesis by simp
  qed
  have c: "reconstruct_loop sample_engine 7 [[], [], ''pq''] [0, 3] [] sample_world
     = (Inl IndexError,
        \<lparr>eng_state = 1,
         calls = [EvGetFragmentPartition 7 [[], [], ''pq''] (Inr ([], [''pq''], [0, 1]))]\<rparr>)"
    using t0 g2 by (simp add: sample_world_def)
  have d: "take 2 (calls (snd (reconstruct_loop sample_engine 7 [''abc'', [], ''pq''] [1, 3] []
                        sample_world)))
     = [EvGetFragmentPartition 7 [''abc'', [], ''pq''] (Inr ([''abc''], [''pq''], [1])),
        EvReconstruct 7 [''abc''] [''pq''] [1] 1 3 (Inr ''ddd'')]"
  proof -
    have rc: "fst (pyeclib_c_reconstruct sample_engine 7 [''abc''] [''pq''] [1] 1
                (int (length ''abc'')) 1) = Inr ''ddd''"
      by (simp add: sample_engine_def numeral_eq_Suc)
    have "calls sample_world = []"
      by (simp add: sample_world_def)
    with t2 g3 rc show ?thesis by simp
  qed
  have e: "ECPyECLibDriver_reconstruct sample_engine sample_driver [[], [], ''pq''] [3, 0]
             sample_world
     = (Inl IndexError, ([[], [], ''pq''], [0, 3]),
        \<lparr>eng_state = 1,
         calls = [EvGetFragmentPartition 7 [[], [], ''pq''] (Inr ([], [''pq''], [0, 1]))]\<rparr>)"
    using t0 g4 by (simp add: sample_world_def sample_driver_def)
  from a b c d e show ?thesis by blast
qed

subsection \<open>What the constructors check\<close>




subsection \<open>The two paths of decode\<close>

text \<open>
  Claim C5, as stated, has every fault of \<open>decode\<close>, on the fast path or on the repair
  path, surfaced as the driver's own error wrapping it. Only the first call is inside the
  \<open>try\<close>: with two payloads of which one is missing and no parity, the engine's
  \<open>decode\<close> raises and the caller receives that fault itself.
\<close>

theorem decode_repair_fault_unwrapped:
  "ECPyECLibDriver_decode sample_engine sample_driver [''ab'', []] sample_world
     = (Inl (EngineFault ''no parity''),
        \<lparr>eng_state = 3,
         calls = [EvFragmentsToString 7 [''ab'', []] (Inr None),
                  EvGetFragmentPartition 7 [''ab'', []] (Inr ([''ab''], [], [1])),
                  EvDecode 7 [''ab''] [] [1] 2 (Inl ''no parity'')]\<rparr>)
   \<and> fst (ECPyECLibDriver_decode sample_engine sample_driver [] sample_world) = Inl NameError"
  by (simp add: ECPyECLibDriver_decode_def call_fragments_to_string_def
      call_get_fragment_partition_def call_decode_def sample_engine_def sample_driver_def
      sample_world_def numeral_eq_Suc)

text \<open>
  Claim C5, amended. \<open>decode\<close> first calls \<open>fragments_to_string\<close> on the payloads and
  returns its string when there is one. When that call returns \<open>None\<close>, it calls
  \<open>get_fragment_partition\<close> on the same payloads, then the engine's \<open>decode\<close> with the
  data fragments, parity fragments and missing indexes of the partition and the length
  of the first data fragment, then \<open>fragments_to_string\<close> on the repaired fragments, and
  returns what this last call returns. A fault of the first call is caught: \<open>decode\<close>
  fails and makes no further call. A fault of any of the three later calls reaches the
  caller as the engine raised it.
\<close>

theorem decode_paths:
  fixes E :: "('f, 'h, 's) engine"
  shows
  "(pyeclib_c_fragments_to_string E (cd_handle self) fp (eng_state wd) = (Inr (Some str), s1)
    \<longrightarrow> ECPyECLibDriver_decode E self fp wd
          = (Inr (Some str),
             \<lparr>eng_state = s1,
              calls = calls wd @ [EvFragmentsToString (cd_handle self) fp (Inr (Some str))]\<rparr>))
   \<and> (pyeclib_c_fragments_to_string E (cd_handle self) fp (eng_state wd) = (Inl f, s1)
    \<longrightarrow> isl (fst (ECPyECLibDriver_decode E self fp wd))
        \<and> snd (ECPyECLibDriver_decode E self fp wd)
            = \<lparr>eng_state = s1,
               calls = calls wd @ [EvFragmentsToString (cd_handle self) fp (Inl f)]\<rparr>)
   \<and> (pyeclib_c_fragments_to_string E (cd_handle self) fp (eng_state wd) = (Inr None, s1)
      \<and> pyeclib_c_get_fragment_partition E (cd_handle self) fp s1 = (Inl f, s2)
    \<longrightarrow> ECPyECLibDriver_decode E self fp wd
          = (Inl (EngineFault f),
             \<lparr>eng_state = s2,
              calls = calls wd @ [EvFragmentsToString (cd_handle self) fp (Inr None),
                                  EvGetFragmentPartition (cd_handle self) fp (Inl f)]\<rparr>))
   \<and> (pyeclib_c_fragments_to_string E (cd_handle self) fp (eng_state wd) = (Inr None, s1)
      \<and> pyeclib_c_get_fragment_partition E (cd_handle self) fp s1 = (Inr (d0 # ds, p, mi), s2)
      \<and> pyeclib_c_decode E (cd_handle self) (d0 # ds) p mi (int (length d0)) s2 = (Inl f, s3)
    \<longrightarrow> ECPyECLibDriver_decode E self fp wd
          = (Inl (EngineFault f),
             \<lparr>eng_state = s3,
              calls = calls wd @ [EvFragmentsToString (cd_handle self) fp (Inr None),
                                  EvGetFragmentPartition (cd_handle self) fp
                                    (Inr (d0 # ds, p, mi)),
                                  EvDecode (cd_handle self) (d0 # ds) p mi (int (length d0))
                                    (Inl f)]\<rparr>))
   \<and> (pyeclib_c_fragments_to_string E (cd_handle self) fp (eng_state wd) = (Inr None, s1)
      \<and> pyeclib_c_get_fragment_partition E (cd_handle self) fp s1 = (Inr (d0 # ds, p, mi), s2)
      \<and> pyeclib_c_decode E (cd_handle self) (d0 # ds) p mi (int (length d0)) s2
          = (Inr decoded, s3)
      \<and> pyeclib_c_fragments_to_string E (cd_handle self) decoded s3 = (Inl f, s4)
    \<longrightarrow> ECPyECLibDriver_decode E self fp wd
          = (Inl (EngineFault f),
             \<lparr>eng_state = s4,
              calls = calls wd @ [EvFragmentsToString (cd_handle self) fp (Inr None),
                                  EvGetFragmentPartition (cd_handle self) fp
                                    (Inr (d0 # ds, p, mi)),
                                  EvDecode (cd_handle self) (d0 # ds) p mi (int (length d0))
                                    (Inr decoded),
                                  EvFragmentsToString (cd_handle self) decoded (Inl f)]\<rparr>))
   \<and> (pyeclib_c_fragments_to_string E (cd_handle self) fp (eng_state wd) = (Inr None, s1)
      \<and> pyeclib_c_get_fragment_partition E (cd_handle self) fp s1 = (Inr (d0 # ds, p, mi), s2)
      \<and> pyeclib_c_decode E (cd_handle self) (d0 # ds) p mi (int (length d0)) s2
          = (Inr decoded, s3)
      \<and> pyeclib_c_fragments_to_string E (cd_handle self) decoded s3 = (Inr ret, s4)
    \<longrightarrow> ECPyECLibDriver_decode E self fp wd
          = (Inr ret,
             \<lparr>eng_state = s4,
              calls = calls wd @ [EvFragmentsToString (cd_handle self) fp (Inr None),
                                  EvGetFragmentPartition (cd_handle self) fp
                                    (Inr (d0 # ds, p, mi)),
                                  EvDecode (cd_handle self) (d0 # ds) p mi (int (length d0))
                                    (Inr decoded),
                                  EvFragmentsToString (cd_handle self) decoded (Inr ret)]\<rparr>))"
  by (simp add: ECPyECLibDriver_decode_def call_fragments_to_string_def
      call_get_fragment_partition_def call_decode_def)

theorem decode_paths_witness:
  "ECPyECLibDriver_decode sample_engine sample_driver [''ab'', ''cd'', ''pq''] sample_world
     = (Inr (Some ''abcdpq''),
        \<lparr>eng_state = 1,
         calls = [EvFragmentsToString 7 [''ab'', ''cd'', ''pq''] (Inr (Some ''abcdpq''))]\<rparr>)
   \<and> isl (fst (ECPyECLibDriver_decode sample_engine sample_driver [] sample_world))
   \<and> snd (ECPyECLibDriver_decode sample_engine sample_driver [] sample_world)
     = \<lparr>eng_state = 1, calls = [EvFragmentsToString 7 [] (Inl ''no fragments'')]\<rparr>
   \<and> ECPyECLibDriver_decode sample_engine sample_driver [''ab'', [], ''pq'', ''rs'', []]
       sample_world
     = (Inl (EngineFault ''too many fragments''),
        \<lparr>eng_state = 2,
         calls = [EvFragmentsToString 7 [''ab'', [], ''pq'', ''rs'', []] (Inr None),
                  EvGetFragmentPartition 7 [''ab'', [], ''pq'', ''rs'', []]
                    (Inl ''too many fragments'')]\<rparr>)
   \<and> ECPyECLibDriver_decode sample_engine sample_driver [''ab'', []] sample_world
     = (Inl (EngineFault ''no parity''),
        \<lparr>eng_state = 3,
         calls = [EvFragmentsToString 7 [''ab'', []] (Inr None),
                  EvGetFragmentPartition 7 [''ab'', []] (Inr ([''ab''], [], [1])),
                  EvDecode 7 [''ab''] [] [1] 2 (Inl ''no parity'')]\<rparr>)
   \<and> ECPyECLibDriver_decode sample_engine sample_driver [''ab'', [], ''pq'', []] sample_world
     = (Inl (EngineFault ''no fragments''),
        \<lparr>eng_state = 4,
         calls = [EvFragmentsToString 7 [''ab'', [], ''pq'', []] (Inr None),
                  EvGetFragmentPartition 7 [''ab'', [], ''pq'', []]
                    (Inr ([''ab''], [''pq''], [1, 3])),
                  EvDecode 7 [''ab''] [''pq''] [1, 3] 2 (Inr []),
                  EvFragmentsToString 7 [] (Inl ''no fragments'')]\<rparr>)
   \<and> ECPyECLibDriver_decode sample_engine sample_driver [''ab'', [], ''pq''] sample_world
     = (Inr (Some ''abpq''),
        \<lparr>eng_state = 4,
         calls = [EvFragmentsToString 7 [''ab'', [], ''pq''] (Inr None),
                  EvGetFragmentPartition 7 [''ab'', [], ''pq''] (Inr ([''ab''], [''pq''], [1])),
                  EvDecode 7 [''ab''] [''pq''] [1] 2 (Inr [''ab'', ''pq'']),
                  EvFragmentsToString 7 [''ab'', ''pq''] (Inr (Some ''abpq''))]\<rparr>)"
proof -
  have h: "cd_handle sample_driver = 7" and s0: "eng_state sample_world = 0"
    and c0: "calls sample_world = []"
    by (simp_all add: sample_driver_def sample_world_def)
  have fts: "pyeclib_c_fragments_to_string sample_engine hh frags s
               = (if frags = [] then Inl ''no fragments''
                  else if [] \<in> set frags then Inr None
                  else Inr (Some (concat frags)), Suc s)" for hh frags s
    by (simp add: sample_engine_def)
  have gp: "pyeclib_c_get_fragment_partition sample_engine hh frags s
              = (if 4 < length frags then Inl ''too many fragments''
                 else Inr (filter (\<lambda>f. f \<noteq> []) (take 2 frags),
                           filter (\<lambda>f. f \<noteq> []) (drop 2 frags),
                           map int (filter (\<lambda>i. frags ! i = []) [0..<length frags])), Suc s)"
    for hh frags s
    by (simp add: sample_engine_def)
  have dec: "pyeclib_c_decode sample_engine hh d p mi n s
               = (if p = [] then Inl ''no parity''
                  else if 2 \<le> length mi then Inr []
                  else Inr (d @ p), Suc s)" for hh d p mi n s
    by (simp add: sample_engine_def)
  have a: "pyeclib_c_fragments_to_string sample_engine (cd_handle sample_driver)
             [''ab'', ''cd'', ''pq''] (eng_state sample_world) = (Inr (Some ''abcdpq''), 1)"
    by (simp add: h s0 fts)
  have b: "pyeclib_c_fragments_to_string sample_engine (cd_handle sample_driver)
             [] (eng_state sample_world) = (Inl ''no fragments'', 1)"
    by (simp add: h s0 fts)
  have c: "pyeclib_c_fragments_to_string sample_engine (cd_handle sample_driver)
             [''ab'', [], ''pq'', ''rs'', []] (eng_state sample_world) = (Inr None, 1)
           \<and> pyeclib_c_get_fragment_partition sample_engine (cd_handle sample_driver)
             [''ab'', [], ''pq'', ''rs'', []] 1 = (Inl ''too many fragments'', 2)"
    by (simp add: h s0 fts gp)
  have d: "pyeclib_c_fragments_to_string sample_engine (cd_handle sample_driver)
             [''ab'', []] (eng_state sample_world) = (Inr None, 1)
           \<and> pyeclib_c_get_fragment_partition sample_engine (cd_handle sample_driver)
             [''ab'', []] 1 = (Inr ([''ab''], [], [1]), 2)
           \<and> pyeclib_c_decode sample_engine (cd_handle sample_driver) [''ab''] [] [1]
             (int (length ''ab'')) 2 = (Inl ''no parity'', 3)"
    by (simp add: h s0 fts gp dec numeral_eq_Suc)
  have e: "pyeclib_c_fragments_to_string sample_engine (cd_handle sample_driver)
             [''ab'', [], ''pq'', []] (eng_state sample_world) = (Inr None, 1)
           \<and> pyeclib_c_get_fragment_partition sample_engine (cd_handle sample_driver)
             [''ab'', [], ''pq'', []] 1 = (Inr ([''ab''], [''pq''], [1, 3]), 2)
           \<and> pyeclib_c_decode sample_engine (cd_handle sample_driver) [''ab''] [''pq''] [1, 3]
             (int (length ''ab'')) 2 = (Inr [], 3)
           \<and> pyeclib_c_fragments_to_string sample_engine (cd_handle sample_driver) [] 3
             = (Inl ''no fragments'', 4)"
    by (simp add: h s0 fts gp dec numeral_eq_Suc)
  have f: "pyeclib_c_fragments_to_string sample_engine (cd_handle sample_driver)
             [''ab'', [], ''pq''] (eng_state sample_world) = (Inr None, 1)
           \<and> pyeclib_c_get_fragment_partition sample_engine (cd_handle sample_driver)
             [''ab'', [], ''pq''] 1 = (Inr ([''ab''], [''pq''], [1]), 2)
           \<and> pyeclib_c_decode sample_engine (cd_handle sample_driver) [''ab''] [''pq''] [1]
             (int (length ''ab'')) 2 = (Inr [''ab'', ''pq''], 3)
           \<and> pyeclib_c_fragments_to_string sample_engine (cd_handle sample_driver)
             [''ab'', ''pq''] 3 = (Inr (Some ''abpq''), 4)"
    by (simp add: h s0 fts gp dec numeral_eq_Suc)
  note t = decode_paths [where E = sample_engine and self = sample_driver and wd = sample_world]
  note ta = t [THEN conjunct1, rule_format, OF a]
  note tb = t [THEN conjunct2, THEN conjunct1, rule_format, OF b]
  note tc = t [THEN conjunct2, THEN conjunct2, THEN conjunct1, rule_format, OF c]
  note td = t [THEN conjunct2, THEN conjunct2, THEN conjunct2, THEN conjunct1, rule_format, OF d]
  note te = t [THEN conjunct2, THEN conjunct2, THEN conjunct2, THEN conjunct2, THEN conjunct1,
      rule_format, OF e]
  note tf = t [THEN conjunct2, THEN conjunct2, THEN conjunct2, THEN conjunct2, THEN conjunct2,
      rule_format, OF f]
  from ta tb tc td te tf show ?thesis
    by (simp add: h c0)
qed

subsection \<open>The caller's lists\<close>




end
